theory Spec2Isabelle
  imports Main "HOL-Library.Word" "HOL-Library.AList"
begin

section \<open>Shared data of the session fabric\<close>

text \<open>
  The errors of package constants that the embedded functions return, and \<open>ErrExternal\<close>
  for an error produced by a collaborator (broker, cache, route decoder, session layer),
  carrying its message.
\<close>

datatype error =
    ErrSessionNotFound
  | ErrSessionAlreadyBound
  | ErrIllegalBindBackendID
  | ErrNoNatsConnectionString
  | ErrNatsMessagesBufferSizeZero
  | ErrNatsPushBufferSizeZero
  | ErrExternal string

text \<open>A Go call either returns or panics.\<close>

datatype 'a outcome = Returned 'a | Panicked

type_synonym metadata = "(string \<times> string) list"

type_synonym bytes = "8 word list"

text \<open>cluster.Server: the fields that sys.go and \<^verbatim>\<open>nats_rpc_server.go\<close> read.\<close>

record Server =
  ID :: string
  Type :: string
  Frontend :: bool

text \<open>
  session.Session is an interface whose implementation is not among the sources. The
  record holds what its getters return: \<open>ID()\<close>, \<open>UID()\<close>, \<open>GetDataEncoded()\<close> and the
  frontend data.
\<close>

record Session =
  sessionID :: int
  UID :: string
  dataEncoded :: bytes
  frontendID :: string
  frontendSessionID :: int

text \<open>
  session.CloseReason is an integer type; its constants are not among the sources. Only
  \<open>CloseReasonRebind\<close> is compared against, every other value is \<open>CloseReasonOther\<close>.
\<close>

datatype CloseReason = CloseReasonRebind | CloseReasonOther nat

text \<open>The protos messages that the callbacks build, as one sum (proto.Message).\<close>

datatype Msg =
    BindMsg string string int metadata
  | BindBackendMsg string string string metadata
  | KickMsg string metadata

record KickAnswer =
  Kicked :: bool

datatype Response = Response bytes

text \<open>
  Modelled from the spec: package constants is not among the sources; section 6 of the
  specification lists the route names as strings.
\<close>

definition SessionBoundForkRoute :: string where
  "SessionBoundForkRoute = ''session.bound.fork''"

definition SessionBoundRoute :: string where
  "SessionBoundRoute = ''session.bound''"

definition SessionClosedRoute :: string where
  "SessionClosedRoute = ''session.closed''"

definition SessionBindBackendRoute :: string where
  "SessionBindBackendRoute = ''session.bind.backend''"

definition KickBackendRoute :: string where
  "KickBackendRoute = ''kick.backend''"

definition SessionBoundBackendForkRoute :: string where
  "SessionBoundBackendForkRoute = ''session.bound.backend.fork''"

definition SessionBoundBackendRoute :: string where
  "SessionBoundBackendRoute = ''session.bound.backend''"

definition SessionKickedBackendRoute :: string where
  "SessionKickedBackendRoute = ''session.kicked.backend''"

section \<open>remote/sys.go\<close>

subsection \<open>Collaborators\<close>

text \<open>
  Every call that leaves sys.go is recorded in a trace, in call order. The type \<open>'r\<close> is
  the decoded route (\<open>*route.Route\<close>). Logging is not recorded.
\<close>

datatype 'r Effect =
    ObtainFromCluster
  | Flush2Cluster
  | BroadcastSessionBind string
  | Fork 'r Msg
  | Notify string 'r Msg
  | NotifyAll 'r Server Msg
  | StoreSessionLocal int
  | RemoveSessionLocal int
  | SessKick int metadata
  | SessBindBackend int string string metadata

text \<open>
  The results of the calls into code that is not in sys.go are parameters: the cluster
  cache (\<open>ObtainFromCluster\<close> gives the session after the merge, or an error), the broker
  client, the remote service, the route decoder, the session pool's store, service
  discovery and the session's own \<open>Kick\<close> and \<open>BindBackend\<close>.
\<close>

record 'r World =
  w_ObtainFromCluster :: "Session \<Rightarrow> error + Session"
  w_Flush2Cluster :: "Session \<Rightarrow> error option"
  w_BroadcastSessionBind :: "string \<Rightarrow> error option"
  w_Decode :: "string \<Rightarrow> error + 'r"
  w_Fork :: "'r \<Rightarrow> Msg \<Rightarrow> error option"
  w_Notify :: "string \<Rightarrow> 'r \<Rightarrow> Msg \<Rightarrow> error option"
  w_NotifyAll :: "'r \<Rightarrow> Msg \<Rightarrow> error option"
  w_StoreSessionLocal :: "Session \<Rightarrow> error option"
  w_GetServerTypes :: "Server list"
  w_Kick :: "Session \<Rightarrow> metadata \<Rightarrow> error option"
  w_BindBackend :: "Session \<Rightarrow> string \<Rightarrow> string \<Rightarrow> metadata \<Rightarrow> error option"

text \<open>
  Modelled from the spec: the session pool is not among the sources. It is the
  "process-local index of sessions by internal id and by user id".
\<close>

record SessionPool =
  sessionsByUID :: "string \<rightharpoonup> Session"
  sessionsByID :: "int \<rightharpoonup> Session"

definition GetSessionByUID :: "SessionPool \<Rightarrow> string \<Rightarrow> Session option" where
  "GetSessionByUID pool u = sessionsByUID pool u"

definition StoreSessionLocal_pool :: "Session \<Rightarrow> SessionPool \<Rightarrow> SessionPool" where
  "StoreSessionLocal_pool s pool =
     pool\<lparr>sessionsByUID := (sessionsByUID pool)(UID s \<mapsto> s),
          sessionsByID := (sessionsByID pool)(sessionID s \<mapsto> s)\<rparr>"

definition RemoveSessionLocal_pool :: "Session \<Rightarrow> SessionPool \<Rightarrow> SessionPool" where
  "RemoveSessionLocal_pool s pool =
     pool\<lparr>sessionsByUID := (sessionsByUID pool)(UID s := None),
          sessionsByID := (sessionsByID pool)(sessionID s := None)\<rparr>"

text \<open>
  Modelled from the spec: the session's setters are not among the sources. Step 3 of
  OnSessionBind sets "frontendId = self.id, frontendSessionId = session.id"; the push
  route "sets encoded data".
\<close>

definition SetFrontendData :: "string \<Rightarrow> int \<Rightarrow> Session \<Rightarrow> Session" where
  "SetFrontendData fid sid s = s\<lparr>frontendID := fid, frontendSessionID := sid\<rparr>"

definition GetDataEncoded :: "Session \<Rightarrow> bytes" where
  "GetDataEncoded s = dataEncoded s"

definition SetDataEncoded :: "bytes \<Rightarrow> Session \<Rightarrow> Session" where
  "SetDataEncoded d s = s\<lparr>dataEncoded := d\<rparr>"

text \<open>
  Modelled from the spec: RemoteService.NotifyAll is not among the sources. Section 4.4:
  "for each server type in discovery except self, one Notify with the per-type route".
  \<open>NotifyAll_types\<close> are the server types that one NotifyAll call reaches, and
  \<open>deliveries\<close> the messages that a recorded call hands to them.
\<close>

definition NotifyAll_types :: "Server \<Rightarrow> Server list \<Rightarrow> string list" where
  "NotifyAll_types self servers = remdups (filter (\<lambda>t. t \<noteq> Type self) (map Type servers))"

fun deliveries :: "Server list \<Rightarrow> 'r Effect \<Rightarrow> (string \<times> Msg) list" where
  "deliveries servers (NotifyAll r self msg) = map (\<lambda>t. (t, msg)) (NotifyAll_types self servers)"
| "deliveries servers (Notify sid r msg) = [(sid, msg)]"
| "deliveries servers _ = []"

subsection \<open>OnSessionBind\<close>

text \<open>
  The body of the one-round \<open>for\<close> loop of the callback; every \<open>break\<close> leaves it with
  the error set. The result of \<open>BroadcastSessionBind\<close> is assigned to \<open>err\<close> and the
  next statement, the decoding of the fork route, assigns \<open>err\<close> again.
\<close>

definition OnSessionBind_loop ::
  "'r World \<Rightarrow> Server \<Rightarrow> metadata \<Rightarrow> Session \<Rightarrow> error option \<times> Session \<times> 'r Effect list" where
  "OnSessionBind_loop w server callback s =
     (case w_ObtainFromCluster w s of
        Inl e \<Rightarrow> (Some e, s, [ObtainFromCluster])
      | Inr s1 \<Rightarrow>
          let s2 = SetFrontendData (ID server) (sessionID s1) s1 in
          (case w_Flush2Cluster w s2 of
             Some e \<Rightarrow> (Some e, s2, [ObtainFromCluster, Flush2Cluster])
           | None \<Rightarrow>
               let msg = BindMsg (UID s2) (ID server) (sessionID s2) callback;
                   err = w_BroadcastSessionBind w (UID s2);
                   t3 = [ObtainFromCluster, Flush2Cluster, BroadcastSessionBind (UID s2)]
               in (case w_Decode w (Type server @ ''.'' @ SessionBoundForkRoute) of
                     Inl e \<Rightarrow> (Some e, s2, t3)
                   | Inr r \<Rightarrow>
                       (case w_Fork w r msg of
                          Some e \<Rightarrow> (Some e, s2, t3 @ [Fork r msg])
                        | None \<Rightarrow>
                            (case w_Decode w SessionBoundRoute of
                               Inl e \<Rightarrow> (Some e, s2, t3 @ [Fork r msg])
                             | Inr r' \<Rightarrow>
                                 (w_NotifyAll w r' msg, s2,
                                  t3 @ [Fork r msg, NotifyAll r' server msg]))))))"

definition OnSessionBind ::
  "'r World \<Rightarrow> Server \<Rightarrow> Session \<Rightarrow> metadata \<Rightarrow> error option \<times> Session \<times> 'r Effect list" where
  "OnSessionBind w server s callback =
     (if \<not> Frontend server then (None, s, [])
      else
        let olddata = GetDataEncoded s in
        (case OnSessionBind_loop w server callback s of
           (Some e, s', tr) \<Rightarrow> (Some e, SetDataEncoded olddata s', tr)
         | (None, s', tr) \<Rightarrow> (None, s', tr)))"

subsection \<open>OnSessionClose\<close>

definition OnSessionClose ::
  "'r World \<Rightarrow> Server \<Rightarrow> Session \<Rightarrow> metadata \<Rightarrow> CloseReason \<Rightarrow> 'r Effect list" where
  "OnSessionClose w server s callback reason =
     (if \<not> Frontend server then []
      else if reason = CloseReasonRebind then []
      else
        (case w_Decode w SessionClosedRoute of
           Inl e \<Rightarrow> []
         | Inr r \<Rightarrow> [NotifyAll r server (KickMsg (UID s) callback)]))"

subsection \<open>OnBindBackend\<close>

text \<open>
  The inner loop over \<open>serverDiscovery.GetServerTypes()\<close>: its \<open>break\<close> leaves the loop
  with the error set, and the round of the outer loop ends right after it.
\<close>

fun OnBindBackend_notify ::
  "'r World \<Rightarrow> Msg \<Rightarrow> Server list \<Rightarrow> error option \<times> 'r Effect list" where
  "OnBindBackend_notify w msg [] = (None, [])"
| "OnBindBackend_notify w msg (sv # svs) =
     (case w_Decode w (Type sv @ ''.'' @ SessionBoundBackendRoute) of
        Inl e \<Rightarrow> (Some e, [])
      | Inr r \<Rightarrow>
          (case w_Notify w [] r msg of
             Some e \<Rightarrow> (Some e, [Notify [] r msg])
           | None \<Rightarrow>
               (case OnBindBackend_notify w msg svs of
                  (err, tr) \<Rightarrow> (err, Notify [] r msg # tr))))"

definition OnBindBackend_loop ::
  "'r World \<Rightarrow> Server \<Rightarrow> Msg \<Rightarrow> Session \<Rightarrow> SessionPool \<Rightarrow>
   error option \<times> SessionPool \<times> 'r Effect list" where
  "OnBindBackend_loop w server msg s pool =
     (if GetSessionByUID pool (UID s) \<noteq> None then (Some ErrSessionAlreadyBound, pool, [])
      else
        (case w_StoreSessionLocal w s of
           Some e \<Rightarrow> (Some e, pool, [StoreSessionLocal (sessionID s)])
         | None \<Rightarrow>
             let pool1 = StoreSessionLocal_pool s pool;
                 t1 = [StoreSessionLocal (sessionID s), Flush2Cluster]
             in (case w_Flush2Cluster w s of
                   Some e \<Rightarrow> (Some e, pool1, t1)
                 | None \<Rightarrow>
                     (case w_Decode w (Type server @ ''.'' @ SessionBoundBackendForkRoute) of
                        Inl e \<Rightarrow> (Some e, pool1, t1)
                      | Inr r \<Rightarrow>
                          (case w_Fork w r msg of
                             Some e \<Rightarrow> (Some e, pool1, t1 @ [Fork r msg])
                           | None \<Rightarrow>
                               (case OnBindBackend_notify w msg (w_GetServerTypes w) of
                                  (err, tr) \<Rightarrow> (err, pool1, t1 @ [Fork r msg] @ tr)))))))"

definition OnBindBackend ::
  "'r World \<Rightarrow> Server \<Rightarrow> Session \<Rightarrow> string \<Rightarrow> string \<Rightarrow> metadata \<Rightarrow> SessionPool \<Rightarrow>
   error option \<times> SessionPool \<times> 'r Effect list" where
  "OnBindBackend w server s serverType serverId callback pool =
     (let msg = BindBackendMsg (UID s) serverType (ID server) callback in
      if ID server = serverId then
        (case OnBindBackend_loop w server msg s pool of
           (Some e, pool', tr) \<Rightarrow> (Some e, pool', tr)
         | (None, pool', tr) \<Rightarrow> (None, pool', tr))
      else
        (case w_Decode w SessionBindBackendRoute of
           Inl e \<Rightarrow> (Some e, pool, [])
         | Inr r \<Rightarrow> (w_Notify w serverId r msg, pool, [Notify serverId r msg])))"

subsection \<open>OnKickBackend\<close>

definition OnKickBackend ::
  "'r World \<Rightarrow> Server \<Rightarrow> Session \<Rightarrow> string \<Rightarrow> string \<Rightarrow> metadata \<Rightarrow> CloseReason \<Rightarrow>
   SessionPool \<Rightarrow> error option \<times> SessionPool \<times> 'r Effect list" where
  "OnKickBackend w server s serverType serverId callback reason pool =
     (let msg = BindBackendMsg (UID s) serverType (ID server) callback in
      if ID server = serverId then
        (let pool1 = RemoveSessionLocal_pool s pool;
             t1 = [RemoveSessionLocal (sessionID s)]
         in if reason = CloseReasonRebind then (None, pool1, t1)
            else
              (case w_Flush2Cluster w s of
                 Some e \<Rightarrow> (Some e, pool1, t1 @ [Flush2Cluster])
               | None \<Rightarrow>
                   (case w_Decode w SessionKickedBackendRoute of
                      Inl e \<Rightarrow> (Some e, pool1, t1 @ [Flush2Cluster])
                    | Inr r \<Rightarrow>
                        (w_Notify w [] r msg, pool1,
                         t1 @ [Flush2Cluster, Notify [] r msg]))))
      else
        (case w_Decode w KickBackendRoute of
           Inl e \<Rightarrow> (Some e, pool, [])
         | Inr r \<Rightarrow> (w_Notify w serverId r msg, pool, [Notify serverId r msg])))"

subsection \<open>The Kick and BindBackendSession handlers\<close>

text \<open>
  Kick returns a pointer and an error; the pointer is \<open>Some\<close> when it is not nil.
\<close>

definition Kick ::
  "'r World \<Rightarrow> SessionPool \<Rightarrow> string \<Rightarrow> metadata \<Rightarrow>
   (KickAnswer option \<times> error option) \<times> 'r Effect list" where
  "Kick w pool userId md =
     (let res = \<lparr>Kicked = False\<rparr> in
      case GetSessionByUID pool userId of
        None \<Rightarrow> ((Some res, Some ErrSessionNotFound), [])
      | Some sess \<Rightarrow>
          (case w_Kick w sess md of
             Some e \<Rightarrow> ((Some res, Some e), [SessKick (sessionID sess) md])
           | None \<Rightarrow> ((Some (res\<lparr>Kicked := True\<rparr>), None), [SessKick (sessionID sess) md])))"

text \<open>
  The request context, as far as sys.go reads it: the value under
  \<open>constants.SessionCtxKey\<close>.
\<close>

definition getSessionFromCtx :: "Session option \<Rightarrow> Session option" where
  "getSessionFromCtx ctx = (case ctx of None \<Rightarrow> None | Some sessionVal \<Rightarrow> Some sessionVal)"

text \<open>
  A method call on a nil interface value panics. \<open>sess == nil && sess.UID() != msg.Uid\<close>
  evaluates its right operand exactly when \<open>sess\<close> is nil.
\<close>

definition UID_of :: "Session option \<Rightarrow> string outcome" where
  "UID_of sess = (case sess of None \<Rightarrow> Panicked | Some s \<Rightarrow> Returned (UID s))"

definition BindBackendSession_rest ::
  "'r World \<Rightarrow> Server \<Rightarrow> Session \<Rightarrow> string \<Rightarrow> string \<Rightarrow> metadata \<Rightarrow>
   (Response option \<times> error option) outcome" where
  "BindBackendSession_rest w server sess btype bid md =
     (if btype \<noteq> Type server \<or> bid \<noteq> ID server then Returned (None, Some ErrIllegalBindBackendID)
      else
        (case w_BindBackend w sess (Type server) (ID server) md of
           Some e \<Rightarrow> Returned (None, Some e)
         | None \<Rightarrow> Returned (Some (Response (map (of_nat \<circ> of_char) ''ack'')), None)))"

definition BindBackendSession ::
  "'r World \<Rightarrow> Server \<Rightarrow> SessionPool \<Rightarrow> Session option \<Rightarrow> string \<Rightarrow> string \<Rightarrow> string \<Rightarrow>
   metadata \<Rightarrow> (Response option \<times> error option) outcome" where
  "BindBackendSession w server pool ctx uid btype bid md =
     (case GetSessionByUID pool uid of
        Some sess \<Rightarrow> BindBackendSession_rest w server sess btype bid md
      | None \<Rightarrow>
          (case getSessionFromCtx ctx of
             Some sess \<Rightarrow> BindBackendSession_rest w server sess btype bid md
           | None \<Rightarrow>
               (case UID_of None of
                  Panicked \<Rightarrow> Panicked
                | Returned u \<Rightarrow>
                    if u \<noteq> uid then Returned (None, Some ErrSessionNotFound) else Panicked)))"

section \<open>cluster/\<^verbatim>\<open>nats_rpc_server.go\<close>\<close>

subsection \<open>State\<close>

text \<open>
  config.NatsRPCServerConfig is not among the sources; these are the fields that
  \<open>configure\<close> reads, as Go \<open>int\<close>s and durations.
\<close>

record NatsRPCServerConfig =
  Services :: int
  Connect :: string
  ConnectionTimeout :: int
  MaxReconnectionRetries :: int
  BufferMessages :: int
  BufferPush :: int
  RequestTimeout :: int

text \<open>
  A \<open>*nats.Subscription\<close> is a handle. The broker's side of the connection is the list
  of subscriptions made so far (subject, queue group, receiving channel) and the number
  of subscribe calls, which selects the result of the next one.
\<close>

type_synonym Subscription = nat

datatype Chan = SubChan | BindingsChan

record Broker =
  subscriptions :: "(string \<times> string \<times> Chan) list"
  attempts :: nat

text \<open>
  The results of the broker client: whether \<open>setupNatsConn\<close> fails, and whether the
  n-th subscribe call fails.
\<close>

record NatsEnv =
  n_setupNatsConn :: "error option"
  n_subscribe :: "nat \<Rightarrow> error option"

text \<open>
  The fields of NatsRPCServer that the embedded functions touch. A channel is its
  capacity (\<open>None\<close> before \<open>make\<close>), \<open>responses\<close> and \<open>requests\<close> are their lengths,
  \<open>conn\<close> says whether the connection pointer is set, the two Go maps are association
  lists with unique keys, and \<open>dropped\<close> is a 64-bit Go \<open>int\<close>. \<open>broker\<close> is not a
  field of the struct: it is the broker's side of the connection.
\<close>

record NatsRPCServer =
  service :: int
  connString :: string
  connectionTimeout :: int
  maxReconnectionRetries :: int
  server :: Server
  conn :: bool
  pushBufferSize :: int
  messagesBufferSize :: int
  subChan :: "nat option"
  bindingsChan :: "nat option"
  responses :: nat
  requests :: nat
  userPushCh :: "nat option"
  userKickCh :: "nat option"
  sub :: "Subscription option"
  broadcastSubs :: "Subscription list"
  publishSubs :: "(string \<times> Subscription) list"
  preparePubSubTopics :: "(string \<times> string) list"
  dropped :: "64 word"
  reqTimeout :: int
  broker :: Broker

datatype Log = Warn string error

definition ErrAlreadySubscribed :: error where
  "ErrAlreadySubscribed = ErrExternal ''already subscribed''"

text \<open>nats.DefaultTimeout of the broker client library: two seconds, in nanoseconds.\<close>

definition DefaultTimeout :: int where
  "DefaultTimeout = 2000000000"

subsection \<open>Construction\<close>

text \<open>
  \<open>make\<close> of a channel or a slice panics on a negative size. \<open>configure\<close> writes the
  fields in the order of the source and returns at the first failing check.
\<close>

definition configure ::
  "NatsRPCServerConfig \<Rightarrow> NatsRPCServer \<Rightarrow> (error option \<times> NatsRPCServer) outcome" where
  "configure config ns =
     (let ns1 = ns\<lparr>service := Services config, connString := Connect config\<rparr> in
      if connString ns1 = [] then Returned (Some ErrNoNatsConnectionString, ns1)
      else
        let ns2 = ns1\<lparr>connectionTimeout := ConnectionTimeout config,
                      maxReconnectionRetries := MaxReconnectionRetries config,
                      messagesBufferSize := BufferMessages config\<rparr> in
        if messagesBufferSize ns2 = 0 then Returned (Some ErrNatsMessagesBufferSizeZero, ns2)
        else
          let ns3 = ns2\<lparr>pushBufferSize := BufferPush config\<rparr> in
          if pushBufferSize ns3 = 0 then Returned (Some ErrNatsPushBufferSizeZero, ns3)
          else if messagesBufferSize ns3 < 0 then Panicked
          else if pushBufferSize ns3 < 0 then Panicked
          else if service ns3 < 0 then Panicked
          else
            Returned (None,
              ns3\<lparr>subChan := Some (nat (messagesBufferSize ns3)),
                  bindingsChan := Some (nat (messagesBufferSize ns3)),
                  userPushCh := Some (nat (pushBufferSize ns3)),
                  userKickCh := Some (nat (messagesBufferSize ns3)),
                  responses := nat (service ns3),
                  requests := nat (service ns3),
                  reqTimeout := RequestTimeout config\<rparr>))"

text \<open>
  The struct literal of the constructor; the fields it does not name are zero. The
  broker has seen no subscription yet.
\<close>

definition new_ns :: "Server \<Rightarrow> NatsRPCServer" where
  "new_ns sv =
     \<lparr>service = 0, connString = [], connectionTimeout = DefaultTimeout,
      maxReconnectionRetries = 0, server = sv, conn = False, pushBufferSize = 0,
      messagesBufferSize = 0, subChan = None, bindingsChan = None, responses = 0,
      requests = 0, userPushCh = None, userKickCh = None, sub = None, broadcastSubs = [],
      publishSubs = [], preparePubSubTopics = [], dropped = 0, reqTimeout = 0,
      broker = \<lparr>subscriptions = [], attempts = 0\<rparr>\<rparr>"

definition NewNatsRPCServer ::
  "NatsRPCServerConfig \<Rightarrow> Server \<Rightarrow> (NatsRPCServer option \<times> error option) outcome" where
  "NewNatsRPCServer config sv =
     (case configure config (new_ns sv) of
        Panicked \<Rightarrow> Panicked
      | Returned (Some e, ns) \<Rightarrow> Returned (None, Some e)
      | Returned (None, ns) \<Rightarrow> Returned (Some ns, None))"

subsection \<open>Subjects\<close>

definition GetUserMessagesTopic :: "string \<Rightarrow> string \<Rightarrow> string" where
  "GetUserMessagesTopic uid svType = ''pitaya/'' @ svType @ ''/user/'' @ uid @ ''/push''"

definition GetUserKickTopic :: "string \<Rightarrow> string \<Rightarrow> string" where
  "GetUserKickTopic uid svType = ''pitaya/'' @ svType @ ''/user/'' @ uid @ ''/kick''"

definition GetBindBroadcastTopic :: "string \<Rightarrow> string" where
  "GetBindBroadcastTopic svType = ''pitaya/'' @ svType @ ''/bindings''"

definition GetForkTopic :: "string \<Rightarrow> string" where
  "GetForkTopic svrType = ''pitaya.fork.'' @ svrType"

definition PublishServiceName :: string where
  "PublishServiceName = ''publish''"

definition GetPublishTopic :: "string \<Rightarrow> string" where
  "GetPublishTopic topic = ''pitaya.'' @ PublishServiceName @ ''.'' @ topic"

text \<open>
  Modelled from the spec: \<open>getChannel\<close> is not among the sources. Section 4.1: "Unicast
  to server: pitaya/servers/<type>/<id>".
\<close>

definition getChannel :: "string \<Rightarrow> string \<Rightarrow> string" where
  "getChannel svType svID = ''pitaya/servers/'' @ svType @ ''/'' @ svID"

subsection \<open>Subscribing\<close>

text \<open>
  The two subscribe calls of the broker client, on the server's connection: a failing
  call leaves the broker's subscriptions as they are, a successful one adds the
  subscription and returns its handle.
\<close>

definition ChanQueueSubscribe ::
  "NatsEnv \<Rightarrow> string \<Rightarrow> string \<Rightarrow> Chan \<Rightarrow> NatsRPCServer \<Rightarrow>
   (error + Subscription) \<times> NatsRPCServer" where
  "ChanQueueSubscribe env subj queue ch ns =
     (let b = broker ns in
      case n_subscribe env (attempts b) of
        Some e \<Rightarrow> (Inl e, ns\<lparr>broker := b\<lparr>attempts := Suc (attempts b)\<rparr>\<rparr>)
      | None \<Rightarrow>
          (Inr (length (subscriptions b)),
           ns\<lparr>broker := b\<lparr>subscriptions := subscriptions b @ [(subj, queue, ch)],
                          attempts := Suc (attempts b)\<rparr>\<rparr>))"

definition ChanSubscribe ::
  "NatsEnv \<Rightarrow> string \<Rightarrow> Chan \<Rightarrow> NatsRPCServer \<Rightarrow> (error + Subscription) \<times> NatsRPCServer" where
  "ChanSubscribe env subj ch ns = ChanQueueSubscribe env subj [] ch ns"

definition subscribe ::
  "NatsEnv \<Rightarrow> string \<Rightarrow> bool \<Rightarrow> NatsRPCServer \<Rightarrow> (error + Subscription) \<times> NatsRPCServer" where
  "subscribe env topic queue ns =
     (if queue then ChanQueueSubscribe env topic (Type (server ns)) SubChan ns
      else ChanSubscribe env topic SubChan ns)"

definition subscribeToBindingsChannel ::
  "NatsEnv \<Rightarrow> NatsRPCServer \<Rightarrow> error option \<times> NatsRPCServer" where
  "subscribeToBindingsChannel env ns =
     (case ChanSubscribe env (GetBindBroadcastTopic (Type (server ns))) BindingsChan ns of
        (Inl e, ns') \<Rightarrow> (Some e, ns')
      | (Inr sb, ns') \<Rightarrow> (None, ns'))"

text \<open>
  Subscribe returns the error, the server and what it logged. \<open>groups\<close> is the variadic
  parameter.
\<close>

definition Subscribe ::
  "NatsEnv \<Rightarrow> string \<Rightarrow> string list \<Rightarrow> NatsRPCServer \<Rightarrow>
   error option \<times> NatsRPCServer \<times> Log list" where
  "Subscribe env topic0 groups ns =
     (let topic = GetPublishTopic topic0 in
      if map_of (publishSubs ns) topic \<noteq> None
      then (None, ns, [Warn topic ErrAlreadySubscribed])
      else if map_of (preparePubSubTopics ns) topic \<noteq> None
      then (None, ns, [Warn topic ErrAlreadySubscribed])
      else
        let group = (case groups of [] \<Rightarrow> [] | g # gs \<Rightarrow> g) in
        if \<not> conn ns
        then (None,
              ns\<lparr>preparePubSubTopics := AList.update topic group (preparePubSubTopics ns)\<rparr>,
              [])
        else
          (case (if group = [] then ChanSubscribe env topic SubChan ns
                 else ChanQueueSubscribe env topic group SubChan ns) of
             (Inl e, ns') \<Rightarrow> (Some e, ns', [])
           | (Inr sb, ns') \<Rightarrow>
               (None, ns'\<lparr>publishSubs := AList.update topic sb (publishSubs ns')\<rparr>, [])))"

subsection \<open>Init\<close>

text \<open>
  The loop of Init over the pre-connect map; an error ends Init. The tasks that Init
  starts are not part of this function.
\<close>

fun Init_publish ::
  "NatsEnv \<Rightarrow> (string \<times> string) list \<Rightarrow> NatsRPCServer \<Rightarrow> error option \<times> NatsRPCServer" where
  "Init_publish env [] ns = (None, ns)"
| "Init_publish env ((t, grp) # rest) ns =
     (case (if grp = [] then ChanSubscribe env t SubChan ns
            else ChanQueueSubscribe env t grp SubChan ns) of
        (Inl e, ns') \<Rightarrow> (Some e, ns')
      | (Inr sb, ns') \<Rightarrow>
          Init_publish env rest (ns'\<lparr>publishSubs := AList.update t sb (publishSubs ns')\<rparr>))"

definition Init :: "NatsEnv \<Rightarrow> NatsRPCServer \<Rightarrow> error option \<times> NatsRPCServer" where
  "Init env ns =
     (case n_setupNatsConn env of
        Some e \<Rightarrow> (Some e, ns)
      | None \<Rightarrow>
          let ns1 = ns\<lparr>conn := True\<rparr> in
          (case subscribe env (getChannel (Type (server ns1)) (ID (server ns1))) False ns1 of
             (Inl e, ns2) \<Rightarrow> (Some e, ns2\<lparr>sub := None\<rparr>)
           | (Inr sb, ns2) \<Rightarrow>
               let ns3 = ns2\<lparr>sub := Some sb\<rparr> in
               (case subscribe env (GetForkTopic (Type (server ns3))) False ns3 of
                  (Inl e, ns4) \<Rightarrow> (Some e, ns4)
                | (Inr bcstSub, ns4) \<Rightarrow>
                    let ns5 = ns4\<lparr>broadcastSubs := broadcastSubs ns4 @ [bcstSub]\<rparr> in
                    (case Init_publish env (preparePubSubTopics ns5) ns5 of
                       (Some e, ns6) \<Rightarrow> (Some e, ns6)
                     | (None, ns6) \<Rightarrow> subscribeToBindingsChannel env ns6))))"

text \<open>
  The life of a server: registrations before Init, Init, registrations after it. The
  results of the single calls are dropped.
\<close>

fun Subscribes :: "NatsEnv \<Rightarrow> (string \<times> string list) list \<Rightarrow> NatsRPCServer \<Rightarrow> NatsRPCServer" where
  "Subscribes env [] ns = ns"
| "Subscribes env ((topic, groups) # rest) ns =
     Subscribes env rest (fst (snd (Subscribe env topic groups ns)))"

definition lifecycle ::
  "NatsEnv \<Rightarrow> (string \<times> string list) list \<Rightarrow> (string \<times> string list) list \<Rightarrow>
   NatsRPCServer \<Rightarrow> NatsRPCServer" where
  "lifecycle env pre post ns = Subscribes env post (snd (Init env (Subscribes env pre ns)))"

definition subjects :: "NatsRPCServer \<Rightarrow> string list" where
  "subjects ns = map fst (subscriptions (broker ns))"

subsection \<open>handleMessages\<close>

text \<open>
  What the select of handleMessages receives: a message from \<open>subChan\<close> or the stop
  signal. A message comes with what \<open>Dropped()\<close> returns for each subscription at that
  moment (nil for a missing one), the result of unmarshalling its data (\<open>None\<close> for an
  error) and its reply subject.
\<close>

record Request =
  payload :: bytes
  Reply :: string

datatype Event =
    SubMsg "Subscription option \<Rightarrow> 64 word" "Request option" string
  | Stop

text \<open>
  The sum of the dropped counts, as the three statements of the source add it up; Go's
  \<open>int\<close> addition wraps around.
\<close>

definition sum_dropped :: "(Subscription option \<Rightarrow> 64 word) \<Rightarrow> NatsRPCServer \<Rightarrow> 64 word" where
  "sum_dropped rd ns =
     (let d0 = rd (sub ns);
          d1 = foldl (\<lambda>d sb. d + rd (Some sb)) d0 (broadcastSubs ns);
          d2 = foldl (\<lambda>d (t, sb). d + rd (Some sb)) d1 (publishSubs ns)
      in d2)"

definition account_dropped :: "(Subscription option \<Rightarrow> 64 word) \<Rightarrow> NatsRPCServer \<Rightarrow> NatsRPCServer" where
  "account_dropped rd ns =
     (let d = sum_dropped rd ns in
      if sint (dropped ns) < sint d then ns\<lparr>dropped := d\<rparr> else ns)"

text \<open>
  The loop, over the events that arrive; it returns the server and the requests it has
  put on \<open>unhandledReqCh\<close>. The loop ends at the stop signal, and it waits when no event
  is left.
\<close>

fun handleMessages :: "Event list \<Rightarrow> NatsRPCServer \<Rightarrow> Request list \<Rightarrow> NatsRPCServer \<times> Request list" where
  "handleMessages [] ns out = (ns, out)"
| "handleMessages (Stop # evs) ns out = (ns, out)"
| "handleMessages (SubMsg rd req reply # evs) ns out =
     (let ns' = account_dropped rd ns in
      case req of
        None \<Rightarrow> handleMessages evs ns' out
      | Some r \<Rightarrow> handleMessages evs ns' (out @ [r\<lparr>Reply := reply\<rparr>]))"

subsection \<open>Registered topics and live subscriptions\<close>

text \<open>
  A subject is registered when one of the two maps has it as a key. A server that has
  not connected has no live subscription, and the keys of its pre-connect map are
  unique, as the keys of a Go map are. \<open>live_once\<close> says that the broker holds a
  publish subject at most once, and only when \<open>publishSubs\<close> has it as a key.
\<close>

definition registered :: "NatsRPCServer \<Rightarrow> string \<Rightarrow> bool" where
  "registered ns topic \<longleftrightarrow>
     map_of (publishSubs ns) topic \<noteq> None \<or> map_of (preparePubSubTopics ns) topic \<noteq> None"

definition not_connected :: "NatsRPCServer \<Rightarrow> bool" where
  "not_connected ns \<longleftrightarrow>
     \<not> conn ns \<and> subscriptions (broker ns) = [] \<and> publishSubs ns = [] \<and>
     distinct (map fst (preparePubSubTopics ns))"

definition live_once :: "NatsRPCServer \<Rightarrow> bool" where
  "live_once ns \<longleftrightarrow>
     (\<forall>t. count_list (subjects ns) (GetPublishTopic t)
            \<le> (if GetPublishTopic t \<in> fst ` set (publishSubs ns) then 1 else 0))"

section \<open>Example inputs\<close>

definition ex_frontend :: Server where
  "ex_frontend = \<lparr>ID = ''F1'', Type = ''connector'', Frontend = True\<rparr>"

definition ex_backend :: Server where
  "ex_backend = \<lparr>ID = ''B1'', Type = ''game'', Frontend = False\<rparr>"

definition ex_chat :: Server where
  "ex_chat = \<lparr>ID = ''C1'', Type = ''chat'', Frontend = False\<rparr>"

definition ex_session :: Session where
  "ex_session = \<lparr>sessionID = 7, UID = ''u1'', dataEncoded = [1], frontendID = [],
                 frontendSessionID = 0\<rparr>"

definition ex_pool :: SessionPool where
  "ex_pool = \<lparr>sessionsByUID = [''u1'' \<mapsto> ex_session], sessionsByID = [7 \<mapsto> ex_session]\<rparr>"

definition empty_pool :: SessionPool where
  "empty_pool = \<lparr>sessionsByUID = Map.empty, sessionsByID = Map.empty\<rparr>"

text \<open>
  A world in which every collaborator succeeds: the cache merge appends one byte to the
  session data, a route decodes to its own string, and discovery knows three servers of
  three types.
\<close>

definition ex_world :: "string World" where
  "ex_world =
     \<lparr>w_ObtainFromCluster = (\<lambda>s. Inr (s\<lparr>dataEncoded := dataEncoded s @ [2]\<rparr>)),
      w_Flush2Cluster = (\<lambda>s. None),
      w_BroadcastSessionBind = (\<lambda>u. None),
      w_Decode = (\<lambda>r. Inr r),
      w_Fork = (\<lambda>r m. None),
      w_Notify = (\<lambda>sid r m. None),
      w_NotifyAll = (\<lambda>r m. None),
      w_StoreSessionLocal = (\<lambda>s. None),
      w_GetServerTypes = [ex_frontend, ex_backend, ex_chat],
      w_Kick = (\<lambda>s m. None),
      w_BindBackend = (\<lambda>s t i m. None)\<rparr>"

text \<open>The same world, except that the bindings broadcast fails.\<close>

definition ex_world_broadcast_fails :: "string World" where
  "ex_world_broadcast_fails =
     ex_world\<lparr>w_BroadcastSessionBind := (\<lambda>u. Some (ErrExternal ''nats: connection closed''))\<rparr>"

text \<open>
  Configurations: one that is accepted, and three that fail: every check at once, the
  message buffer alone, the push buffer alone.
\<close>

definition ex_config :: NatsRPCServerConfig where
  "ex_config = \<lparr>Services = 1, Connect = ''nats://localhost:4222'', ConnectionTimeout = 5,
     MaxReconnectionRetries = 3, BufferMessages = 75, BufferPush = 100, RequestTimeout = 5\<rparr>"

definition ex_config_bad :: NatsRPCServerConfig where
  "ex_config_bad = ex_config\<lparr>Connect := [], BufferMessages := 0, BufferPush := 0\<rparr>"

definition ex_config_messages :: NatsRPCServerConfig where
  "ex_config_messages = ex_config\<lparr>BufferMessages := 0\<rparr>"

definition ex_config_push :: NatsRPCServerConfig where
  "ex_config_push = ex_config\<lparr>BufferPush := 0\<rparr>"

text \<open>
  The server that the accepted configuration constructs, the same server with the topic
  chat pending in group g1, and a broker client that never fails.
\<close>

definition ex_ns :: NatsRPCServer where
  "ex_ns = (new_ns ex_backend)
     \<lparr>service := 1, connString := ''nats://localhost:4222'', connectionTimeout := 5,
      maxReconnectionRetries := 3, pushBufferSize := 100, messagesBufferSize := 75,
      subChan := Some 75, bindingsChan := Some 75, responses := 1, requests := 1,
      userPushCh := Some 100, userKickCh := Some 75, reqTimeout := 5\<rparr>"

definition ex_ns_pending :: NatsRPCServer where
  "ex_ns_pending = ex_ns\<lparr>preparePubSubTopics := [(''pitaya.publish.chat'', ''g1'')]\<rparr>"

definition ex_nats_env :: NatsEnv where
  "ex_nats_env = \<lparr>n_setupNatsConn = None, n_subscribe = (\<lambda>n. None)\<rparr>"

text \<open>
  A running server with three subscriptions, and three messages: the dropped counts add
  up to 5, then to -3 (every \<open>Dropped()\<close> call fails and returns -1), then to 9.
\<close>

definition ex_ns_live :: NatsRPCServer where
  "ex_ns_live = ex_ns\<lparr>sub := Some 0, broadcastSubs := [1],
     publishSubs := [(''pitaya.publish.chat'', 2)], dropped := 0\<rparr>"

definition ex_events :: "Event list" where
  "ex_events =
     [SubMsg (\<lambda>s. case s of None \<Rightarrow> 0 | Some n \<Rightarrow> if n = 0 then 2 else if n = 1 then 3 else 0)
        None ''reply.1'',
      SubMsg (\<lambda>s. - 1) None ''reply.2'',
      SubMsg (\<lambda>s. 3) (Some \<lparr>payload = [], Reply = []\<rparr>) ''reply.3'']"

lemmas ex_defs =
  ex_frontend_def ex_backend_def ex_chat_def ex_session_def ex_pool_def empty_pool_def
  ex_world_def ex_world_broadcast_fails_def

lemmas route_defs =
  SessionBoundForkRoute_def SessionBoundRoute_def SessionClosedRoute_def
  SessionBindBackendRoute_def KickBackendRoute_def SessionBoundBackendForkRoute_def
  SessionBoundBackendRoute_def SessionKickedBackendRoute_def

section \<open>Properties of remote/sys.go\<close>

subsection \<open>OnSessionBind\<close>

text \<open>
  Whenever the callback returns an error, the session's encoded data is the snapshot
  again.
\<close>

lemma OnSessionBind_error_restores:
  "OnSessionBind w self s callback = (Some e, s', tr) \<Longrightarrow> dataEncoded s' = dataEncoded s"
  by (auto simp: OnSessionBind_def Let_def SetDataEncoded_def GetDataEncoded_def
           split: if_splits prod.splits option.splits)

text \<open>
  The outcome of the bindings broadcast has no influence on what the callback returns:
  its error is overwritten before it is read.
\<close>

lemma OnSessionBind_ignores_broadcast:
  "OnSessionBind (w\<lparr>w_BroadcastSessionBind := f\<rparr>) self s callback =
   OnSessionBind w self s callback"
proof -
  have "OnSessionBind_loop (w\<lparr>w_BroadcastSessionBind := f\<rparr>) self callback s =
        OnSessionBind_loop w self callback s"
    by (simp add: OnSessionBind_loop_def Let_def split: sum.splits option.splits)
  then show ?thesis
    by (simp add: OnSessionBind_def)
qed

text \<open>
  C1: every step of OnSessionBind after the snapshot that fails makes the callback restore
  the snapshot and return that step's error, a failing bindings broadcast included. At
  this input the broadcast fails and every other step succeeds: the callback returns nil,
  the session keeps the data merged from the cluster instead of the snapshot, and the
  fork and the NotifyAll are still sent.
\<close>

theorem OnSessionBind_broadcast_failure_lost:
  "w_BroadcastSessionBind ex_world_broadcast_fails (UID ex_session)
     = Some (ErrExternal ''nats: connection closed'') \<and>
   OnSessionBind ex_world_broadcast_fails ex_frontend ex_session [] =
     (None,
      \<lparr>sessionID = 7, UID = ''u1'', dataEncoded = [1, 2], frontendID = ''F1'',
       frontendSessionID = 7\<rparr>,
      [ObtainFromCluster, Flush2Cluster, BroadcastSessionBind ''u1'',
       Fork ''connector.session.bound.fork'' (BindMsg ''u1'' ''F1'' 7 []),
       NotifyAll ''session.bound'' ex_frontend (BindMsg ''u1'' ''F1'' 7 [])])"
  by (simp add: OnSessionBind_def OnSessionBind_loop_def Let_def SetFrontendData_def
        GetDataEncoded_def SetDataEncoded_def ex_defs route_defs)

subsection \<open>OnSessionClose\<close>

text \<open>
  C4: on a frontend, a close with reason Rebind sends nothing; any other close sends one
  KickMsg with the session's uid and the callback metadata through a single NotifyAll on
  the decoded session.closed route, which reaches every distinct peer server type once;
  the cluster cache is not written.
\<close>

theorem OnSessionClose_fanout:
  "Frontend self \<Longrightarrow>
   (reason = CloseReasonRebind \<longrightarrow> OnSessionClose w self s callback reason = []) \<and>
   (reason \<noteq> CloseReasonRebind \<longrightarrow>
      (\<forall>r. w_Decode w SessionClosedRoute = Inr r \<longrightarrow>
         OnSessionClose w self s callback reason
           = [NotifyAll r self (KickMsg (UID s) callback)] \<and>
         concat (map (deliveries servers) (OnSessionClose w self s callback reason))
           = map (\<lambda>t. (t, KickMsg (UID s) callback)) (NotifyAll_types self servers) \<and>
         distinct (NotifyAll_types self servers) \<and>
         set (NotifyAll_types self servers) = Type ` set servers - {Type self})) \<and>
   Flush2Cluster \<notin> set (OnSessionClose w self s callback reason)"
  by (auto simp: OnSessionClose_def NotifyAll_types_def split: sum.splits)

theorem OnSessionClose_fanout_witness:
  "Frontend ex_frontend \<and> CloseReasonOther 1 \<noteq> CloseReasonRebind \<and>
   w_Decode ex_world SessionClosedRoute = Inr ''session.closed'' \<and>
   OnSessionClose ex_world ex_frontend ex_session [(''reason'', ''admin'')] CloseReasonRebind = [] \<and>
   OnSessionClose ex_world ex_frontend ex_session [(''reason'', ''admin'')] (CloseReasonOther 1)
     = [NotifyAll ''session.closed'' ex_frontend (KickMsg ''u1'' [(''reason'', ''admin'')])] \<and>
   concat (map (deliveries (w_GetServerTypes ex_world))
     (OnSessionClose ex_world ex_frontend ex_session [(''reason'', ''admin'')] (CloseReasonOther 1)))
     = [(''game'', KickMsg ''u1'' [(''reason'', ''admin'')]),
        (''chat'', KickMsg ''u1'' [(''reason'', ''admin'')])]"
  using OnSessionClose_fanout [of ex_frontend CloseReasonRebind ex_world ex_session
          "[(''reason'', ''admin'')]" "w_GetServerTypes ex_world"]
        OnSessionClose_fanout [of ex_frontend "CloseReasonOther 1" ex_world ex_session
          "[(''reason'', ''admin'')]" "w_GetServerTypes ex_world"]
  by (simp add: ex_defs route_defs NotifyAll_types_def)

subsection \<open>OnBindBackend\<close>

text \<open>
  C5: when the target is the local server and the pool already holds a session for the
  uid, the callback returns ErrSessionAlreadyBound, leaves the pool as it was and calls
  no collaborator: no store, no cluster write, no fork and no notify.
\<close>

theorem OnBindBackend_already_bound:
  "ID self = serverId \<Longrightarrow> GetSessionByUID pool (UID s) \<noteq> None \<Longrightarrow>
   OnBindBackend w self s serverType serverId callback pool
     = (Some ErrSessionAlreadyBound, pool, [])"
  by (simp add: OnBindBackend_def OnBindBackend_loop_def Let_def)

theorem OnBindBackend_already_bound_witness:
  "ID ex_backend = ''B1'' \<and> GetSessionByUID ex_pool (UID ex_session) \<noteq> None \<and>
   OnBindBackend ex_world ex_backend ex_session ''game'' ''B1'' [] ex_pool
     = (Some ErrSessionAlreadyBound, ex_pool, [])"
  using OnBindBackend_already_bound [of ex_backend "''B1''" ex_pool ex_session ex_world
          "''game''" "[]"]
  by (simp add: ex_defs GetSessionByUID_def)

text \<open>
  C6: when the target is another server, the callback sends exactly one Notify with the
  BindBackendMsg to that server on the decoded session.bind.backend route, returns what
  that Notify returns, and leaves the pool as it was.
\<close>

theorem OnBindBackend_remote:
  "ID self \<noteq> serverId \<Longrightarrow> w_Decode w SessionBindBackendRoute = Inr r \<Longrightarrow>
   OnBindBackend w self s serverType serverId callback pool
     = (w_Notify w serverId r (BindBackendMsg (UID s) serverType (ID self) callback),
        pool,
        [Notify serverId r (BindBackendMsg (UID s) serverType (ID self) callback)])"
  by (simp add: OnBindBackend_def Let_def)

theorem OnBindBackend_remote_witness:
  "ID ex_frontend \<noteq> ''B2'' \<and>
   w_Decode ex_world SessionBindBackendRoute = Inr ''session.bind.backend'' \<and>
   OnBindBackend ex_world ex_frontend ex_session ''game'' ''B2'' [] empty_pool
     = (None, empty_pool,
        [Notify ''B2'' ''session.bind.backend'' (BindBackendMsg ''u1'' ''game'' ''F1'' [])])"
  using OnBindBackend_remote [of ex_frontend "''B2''" ex_world "''session.bind.backend''"
          ex_session "''game''" "[]" empty_pool]
  by (simp add: ex_defs route_defs)

subsection \<open>OnKickBackend\<close>

text \<open>
  With the local server as target the session always leaves the pool, and a Rebind ends
  the callback there.
\<close>

lemma OnKickBackend_rebind:
  "OnKickBackend w self s serverType (ID self) callback CloseReasonRebind pool
     = (None, RemoveSessionLocal_pool s pool, [RemoveSessionLocal (sessionID s)])"
  by (simp add: OnKickBackend_def Let_def)

text \<open>
  C2: with the local server as target and a reason other than Rebind, the kick is
  announced through NotifyAll, one Notify per distinct server type known to discovery.
  At this input discovery knows the peer types game and chat besides the own type; the
  callback removes the session, flushes, and then sends a single Notify with an empty
  server id.
\<close>

theorem OnKickBackend_single_notify:
  "NotifyAll_types ex_frontend (w_GetServerTypes ex_world) = [''game'', ''chat''] \<and>
   remdups (map Type (w_GetServerTypes ex_world)) = [''connector'', ''game'', ''chat''] \<and>
   OnKickBackend ex_world ex_frontend ex_session ''connector'' ''F1'' [] (CloseReasonOther 1)
       ex_pool
     = (None, empty_pool,
        [RemoveSessionLocal 7, Flush2Cluster,
         Notify [] ''session.kicked.backend'' (BindBackendMsg ''u1'' ''connector'' ''F1'' [])])"
  by (simp add: OnKickBackend_def Let_def RemoveSessionLocal_pool_def NotifyAll_types_def
        ex_defs route_defs)

subsection \<open>Handlers\<close>

text \<open>
  C9: Kick always returns an answer; the answer says kicked exactly when the pool holds a
  session for the user id and that session's Kick succeeds. Without a session the error
  is ErrSessionNotFound, and when the session's Kick fails the error is that failure;
  the answer says not kicked in both cases.
\<close>

theorem Kick_answer:
  "\<exists>ans. fst (fst (Kick w pool userId md)) = Some ans \<and>
     (Kicked ans \<longleftrightarrow>
        (\<exists>sess. GetSessionByUID pool userId = Some sess \<and> w_Kick w sess md = None)) \<and>
     (GetSessionByUID pool userId = None \<longrightarrow>
        \<not> Kicked ans \<and> snd (fst (Kick w pool userId md)) = Some ErrSessionNotFound) \<and>
     (\<forall>sess e. GetSessionByUID pool userId = Some sess \<and> w_Kick w sess md = Some e \<longrightarrow>
        \<not> Kicked ans \<and> snd (fst (Kick w pool userId md)) = Some e)"
  by (auto simp: Kick_def Let_def split: option.splits)

theorem Kick_answer_witness:
  "GetSessionByUID empty_pool ''u1'' = None \<and>
   fst (Kick ex_world empty_pool ''u1'' []) = (Some \<lparr>Kicked = False\<rparr>, Some ErrSessionNotFound) \<and>
   GetSessionByUID ex_pool ''u1'' = Some ex_session \<and>
   fst (Kick ex_world ex_pool ''u1'' []) = (Some \<lparr>Kicked = True\<rparr>, None) \<and>
   fst (Kick (ex_world\<lparr>w_Kick := \<lambda>s m. Some (ErrExternal ''closed'')\<rparr>) ex_pool ''u1'' [])
     = (Some \<lparr>Kicked = False\<rparr>, Some (ErrExternal ''closed''))"
  using Kick_answer [of ex_world empty_pool "''u1''" "[]"]
        Kick_answer [of ex_world ex_pool "''u1''" "[]"]
        Kick_answer [of "ex_world\<lparr>w_Kick := \<lambda>s m. Some (ErrExternal ''closed'')\<rparr>" ex_pool
          "''u1''" "[]"]
  by (simp add: Kick_def Let_def GetSessionByUID_def ex_defs)

text \<open>
  With an empty pool and a context without a session the handler calls \<open>UID()\<close> on the
  nil session, whatever the message.
\<close>

lemma BindBackendSession_no_session:
  "GetSessionByUID pool uid = None \<Longrightarrow>
   BindBackendSession w self pool None uid btype bid md = Panicked"
  by (simp add: BindBackendSession_def getSessionFromCtx_def UID_of_def)

text \<open>
  C3: when neither the pool nor the request context holds a session, BindBackendSession
  returns ErrSessionNotFound. At this input the pool is empty and the context carries no
  session: the handler panics.
\<close>

theorem BindBackendSession_nil_session_panics:
  "GetSessionByUID empty_pool ''u9'' = None \<and> getSessionFromCtx None = None \<and>
   BindBackendSession ex_world ex_backend empty_pool None ''u9'' ''game'' ''B1'' [] = Panicked"
  by (simp add: BindBackendSession_def GetSessionByUID_def getSessionFromCtx_def UID_of_def
        empty_pool_def)

section \<open>Properties of cluster/\<^verbatim>\<open>nats_rpc_server.go\<close>\<close>

subsection \<open>Construction\<close>

text \<open>
  C7 as stated: for every configuration, an empty connect string gives
  ErrNoNatsConnectionString, a zero buffer.messages gives ErrNatsMessagesBufferSizeZero
  and a zero buffer.push gives ErrNatsPushBufferSizeZero. A configuration with an empty
  connect string and a zero buffer.messages gets the first error, not the second.
\<close>

theorem NewNatsRPCServer_messages_zero_counterexample:
  "Connect ex_config_bad = [] \<and> BufferMessages ex_config_bad = 0 \<and>
   NewNatsRPCServer ex_config_bad ex_backend = Returned (None, Some ErrNoNatsConnectionString) \<and>
   NewNatsRPCServer ex_config_bad ex_backend \<noteq> Returned (None, Some ErrNatsMessagesBufferSizeZero)"
  by (simp add: NewNatsRPCServer_def configure_def Let_def ex_config_bad_def)

text \<open>
  C7, amended: the checks run in the order connect, buffer.messages, buffer.push, and the
  first one that fails gives the error; no server is returned in any of these cases.
\<close>

theorem NewNatsRPCServer_fail_fast:
  "(Connect config = [] \<longrightarrow>
      NewNatsRPCServer config sv = Returned (None, Some ErrNoNatsConnectionString)) \<and>
   (Connect config \<noteq> [] \<and> BufferMessages config = 0 \<longrightarrow>
      NewNatsRPCServer config sv = Returned (None, Some ErrNatsMessagesBufferSizeZero)) \<and>
   (Connect config \<noteq> [] \<and> BufferMessages config \<noteq> 0 \<and> BufferPush config = 0 \<longrightarrow>
      NewNatsRPCServer config sv = Returned (None, Some ErrNatsPushBufferSizeZero))"
  by (simp add: NewNatsRPCServer_def configure_def Let_def)

theorem NewNatsRPCServer_fail_fast_witness:
  "Connect ex_config_bad = [] \<and>
   NewNatsRPCServer ex_config_bad ex_backend = Returned (None, Some ErrNoNatsConnectionString) \<and>
   Connect ex_config_messages \<noteq> [] \<and> BufferMessages ex_config_messages = 0 \<and>
   NewNatsRPCServer ex_config_messages ex_backend
     = Returned (None, Some ErrNatsMessagesBufferSizeZero) \<and>
   Connect ex_config_push \<noteq> [] \<and> BufferMessages ex_config_push \<noteq> 0 \<and>
   BufferPush ex_config_push = 0 \<and>
   NewNatsRPCServer ex_config_push ex_backend = Returned (None, Some ErrNatsPushBufferSizeZero)"
  using NewNatsRPCServer_fail_fast [of ex_config_bad ex_backend]
        NewNatsRPCServer_fail_fast [of ex_config_messages ex_backend]
        NewNatsRPCServer_fail_fast [of ex_config_push ex_backend]
  by (simp add: ex_config_bad_def ex_config_messages_def ex_config_push_def ex_config_def)

subsection \<open>Publish subscriptions\<close>

text \<open>
  Both branches of the choice between the two subscribe calls are a queue subscribe,
  with an empty group in the first. A failing call changes no field that the
  registration reads, a successful one adds its subject at the broker.
\<close>

lemma subscribe_choice:
  "(if g = [] then ChanSubscribe env subj ch ns else ChanQueueSubscribe env subj g ch ns)
     = ChanQueueSubscribe env subj g ch ns"
  by (simp add: ChanSubscribe_def)

lemma ChanQueueSubscribe_Inl:
  assumes "ChanQueueSubscribe env subj q ch ns = (Inl e, ns')"
  shows "subjects ns' = subjects ns" "publishSubs ns' = publishSubs ns"
    "preparePubSubTopics ns' = preparePubSubTopics ns" "conn ns' = conn ns"
  using assms
  by (simp_all add: ChanQueueSubscribe_def Let_def subjects_def split: option.splits) auto

lemma ChanQueueSubscribe_Inr:
  assumes "ChanQueueSubscribe env subj q ch ns = (Inr sb, ns')"
  shows "subjects ns' = subjects ns @ [subj]" "publishSubs ns' = publishSubs ns"
    "preparePubSubTopics ns' = preparePubSubTopics ns" "conn ns' = conn ns"
  using assms
  by (simp_all add: ChanQueueSubscribe_def Let_def subjects_def split: option.splits) auto

lemma subjects_update [simp]:
  "subjects (ns\<lparr>publishSubs := x\<rparr>) = subjects ns"
  "subjects (ns\<lparr>preparePubSubTopics := y\<rparr>) = subjects ns"
  "subjects (ns\<lparr>conn := c\<rparr>) = subjects ns"
  "subjects (ns\<lparr>sub := s\<rparr>) = subjects ns"
  "subjects (ns\<lparr>broadcastSubs := bs\<rparr>) = subjects ns"
  by (simp_all add: subjects_def)

text \<open>
  How \<open>live_once\<close> is kept: a new subject that is no key of \<open>publishSubs\<close> yet may
  be added together with its key; unchanged subjects keep it; so does a new subject that
  is no publish subject.
\<close>

lemma live_once_extend:
  assumes inv: "live_once ns"
    and fresh: "subj \<notin> fst ` set (publishSubs ns)"
    and subj: "subjects ns' = subjects ns @ [subj]"
    and pubs: "publishSubs ns' = publishSubs ns"
  shows "live_once (ns'\<lparr>publishSubs := AList.update subj sb (publishSubs ns')\<rparr>)"
  unfolding live_once_def
proof
  fix t
  let ?p = "GetPublishTopic t"
  have old: "count_list (subjects ns) ?p \<le> (if ?p \<in> fst ` set (publishSubs ns) then 1 else 0)"
    using inv by (simp add: live_once_def)
  show "count_list (subjects (ns'\<lparr>publishSubs := AList.update subj sb (publishSubs ns')\<rparr>)) ?p
          \<le> (if ?p \<in> fst ` set (publishSubs (ns'\<lparr>publishSubs := AList.update subj sb (publishSubs ns')\<rparr>))
              then 1 else 0)"
  proof (cases "subj = ?p")
    case True
    with old fresh have "count_list (subjects ns) ?p = 0" by simp
    with True show ?thesis by (simp add: subj pubs dom_update)
  next
    case False
    with old show ?thesis by (simp add: subj pubs dom_update)
  qed
qed

lemma live_once_same:
  "live_once ns \<Longrightarrow> subjects ns' = subjects ns \<Longrightarrow> publishSubs ns' = publishSubs ns \<Longrightarrow>
   live_once ns'"
  by (simp add: live_once_def)

lemma live_once_other:
  assumes "live_once ns" "subjects ns' = subjects ns @ [subj]"
    "publishSubs ns' = publishSubs ns" "\<And>t. subj \<noteq> GetPublishTopic t"
  shows "live_once ns'"
  using assms by (simp add: live_once_def)

text \<open>Subscribe keeps \<open>live_once\<close>, in every state.\<close>

lemma Subscribe_live_once:
  assumes "live_once ns"
  shows "live_once (fst (snd (Subscribe env topic groups ns)))"
proof -
  let ?p = "GetPublishTopic topic"
  let ?g = "case groups of [] \<Rightarrow> [] | g # gs \<Rightarrow> g"
  show ?thesis
  proof (cases "map_of (publishSubs ns) ?p \<noteq> None \<or> map_of (preparePubSubTopics ns) ?p \<noteq> None
                \<or> \<not> conn ns")
    case True
    with assms show ?thesis
      by (auto simp: Subscribe_def Let_def live_once_def)
  next
    case False
    then have fresh: "?p \<notin> fst ` set (publishSubs ns)"
      by (simp add: map_of_eq_None_iff)
    obtain r ns' where eq: "ChanQueueSubscribe env ?p ?g SubChan ns = (r, ns')"
      by (cases "ChanQueueSubscribe env ?p ?g SubChan ns")
    show ?thesis
    proof (cases r)
      case (Inl e)
      with eq have "subjects ns' = subjects ns" "publishSubs ns' = publishSubs ns"
        by (auto dest: ChanQueueSubscribe_Inl)
      with assms have "live_once ns'" by (simp add: live_once_same)
      with False eq Inl show ?thesis
        by (simp add: Subscribe_def Let_def subscribe_choice)
    next
      case (Inr sb)
      with eq have s: "subjects ns' = subjects ns @ [?p]" and p: "publishSubs ns' = publishSubs ns"
        by (auto dest: ChanQueueSubscribe_Inr)
      have "live_once (ns'\<lparr>publishSubs := AList.update ?p sb (publishSubs ns')\<rparr>)"
        by (rule live_once_extend [OF assms fresh s p])
      with False eq Inr show ?thesis
        by (simp add: Subscribe_def Let_def subscribe_choice)
    qed
  qed
qed

lemma Subscribes_live_once:
  "live_once ns \<Longrightarrow> live_once (Subscribes env ts ns)"
  by (induction ts arbitrary: ns) (auto simp: Subscribe_live_once)

text \<open>Before Init, Subscribe only fills the pre-connect map.\<close>

lemma Subscribe_not_connected:
  assumes "not_connected ns"
  shows "not_connected (fst (snd (Subscribe env topic groups ns)))"
  using assms
  by (auto simp: Subscribe_def Let_def not_connected_def distinct_update)

lemma Subscribes_not_connected:
  "not_connected ns \<Longrightarrow> not_connected (Subscribes env ts ns)"
  by (induction ts arbitrary: ns) (auto simp: Subscribe_not_connected)

text \<open>
  The loop of Init keeps \<open>live_once\<close> when the keys it still has to subscribe are
  unique and none of them is a key of \<open>publishSubs\<close>.
\<close>

lemma Init_publish_live_once:
  assumes "distinct (map fst rest)" "live_once ns"
    "fst ` set (publishSubs ns) \<inter> fst ` set rest = {}"
  shows "live_once (snd (Init_publish env rest ns))"
  using assms
proof (induction rest arbitrary: ns)
  case Nil
  then show ?case by simp
next
  case (Cons a rest)
  obtain t g where a: "a = (t, g)" by (cases a)
  from Cons.prems a have fresh: "t \<notin> fst ` set (publishSubs ns)" by auto
  obtain r ns' where eq: "ChanQueueSubscribe env t g SubChan ns = (r, ns')"
    by (cases "ChanQueueSubscribe env t g SubChan ns")
  show ?case
  proof (cases r)
    case (Inl e)
    with eq have "subjects ns' = subjects ns" "publishSubs ns' = publishSubs ns"
      by (auto dest: ChanQueueSubscribe_Inl)
    with Cons.prems(2) have "live_once ns'" by (simp add: live_once_same)
    with eq Inl a show ?thesis by (simp add: subscribe_choice)
  next
    case (Inr sb)
    with eq have s: "subjects ns' = subjects ns @ [t]" and p: "publishSubs ns' = publishSubs ns"
      by (auto dest: ChanQueueSubscribe_Inr)
    let ?ns = "ns'\<lparr>publishSubs := AList.update t sb (publishSubs ns')\<rparr>"
    have 1: "live_once ?ns"
      by (rule live_once_extend [OF Cons.prems(2) fresh s p])
    have 2: "distinct (map fst rest)" using Cons.prems(1) by simp
    have 3: "fst ` set (publishSubs ?ns) \<inter> fst ` set rest = {}"
      using Cons.prems(1,3) a by (auto simp: p dom_update)
    from Cons.IH [OF 2 1 3] eq Inr a show ?thesis by (simp add: subscribe_choice)
  qed
qed

lemma not_publish_topic:
  "getChannel ty i \<noteq> GetPublishTopic t"
  "GetForkTopic ty \<noteq> GetPublishTopic t"
  "GetBindBroadcastTopic ty \<noteq> GetPublishTopic t"
  by (simp_all add: getChannel_def GetForkTopic_def GetBindBroadcastTopic_def
        GetPublishTopic_def PublishServiceName_def)

lemma ChanQueueSubscribe_fields:
  "publishSubs (snd (ChanQueueSubscribe env subj q ch ns)) = publishSubs ns"
  "preparePubSubTopics (snd (ChanQueueSubscribe env subj q ch ns)) = preparePubSubTopics ns"
  "conn (snd (ChanQueueSubscribe env subj q ch ns)) = conn ns"
  "server (snd (ChanQueueSubscribe env subj q ch ns)) = server ns"
  by (simp_all add: ChanQueueSubscribe_def Let_def split: option.splits)

lemma ChanQueueSubscribe_live_once:
  assumes "live_once ns" "\<And>t. subj \<noteq> GetPublishTopic t"
  shows "live_once (snd (ChanQueueSubscribe env subj q ch ns))"
proof -
  obtain r ns' where eq: "ChanQueueSubscribe env subj q ch ns = (r, ns')"
    by (cases "ChanQueueSubscribe env subj q ch ns")
  show ?thesis
  proof (cases r)
    case (Inl e)
    with eq assms(1) show ?thesis
      by (auto dest: ChanQueueSubscribe_Inl intro: live_once_same)
  next
    case (Inr sb)
    with eq have s: "subjects ns' = subjects ns @ [subj]" and p: "publishSubs ns' = publishSubs ns"
      by (auto dest: ChanQueueSubscribe_Inr)
    have "live_once ns'" by (rule live_once_other [OF assms(1) s p assms(2)])
    with eq show ?thesis by simp
  qed
qed

lemma live_once_update [simp]:
  "live_once (ns\<lparr>sub := s\<rparr>) = live_once ns"
  "live_once (ns\<lparr>broadcastSubs := bs\<rparr>) = live_once ns"
  "live_once (ns\<lparr>conn := c\<rparr>) = live_once ns"
  "live_once (ns\<lparr>preparePubSubTopics := y\<rparr>) = live_once ns"
  by (simp_all add: live_once_def)

lemma Init_publish_fields:
  "preparePubSubTopics (snd (Init_publish env rest ns)) = preparePubSubTopics ns"
  "fst ` set (publishSubs ns) \<subseteq> fst ` set (publishSubs (snd (Init_publish env rest ns)))"
proof (induction rest arbitrary: ns)
  case Nil
  { case 1 show ?case by simp }
  { case 2 show ?case by simp }
next
  case (Cons a rest)
  { case 1
    show ?case
      by (cases a)
         (simp add: subscribe_choice prod.case_eq_if sum.case_eq_if ChanQueueSubscribe_fields
            Cons.IH(1)) }
  { case 2
    obtain t g where a: "a = (t, g)" by (cases a)
    let ?X = "ChanQueueSubscribe env t g SubChan ns"
    let ?ns = "(snd ?X)\<lparr>publishSubs := AList.update t (projr (fst ?X)) (publishSubs (snd ?X))\<rparr>"
    have "fst ` set (publishSubs ns) \<subseteq> fst ` set (publishSubs ?ns)"
      by (auto simp: dom_update ChanQueueSubscribe_fields)
    also have "\<dots> \<subseteq> fst ` set (publishSubs (snd (Init_publish env rest ?ns)))"
      by (rule Cons.IH(2))
    finally show ?case
      by (simp add: a subscribe_choice prod.case_eq_if sum.case_eq_if ChanQueueSubscribe_fields) }
qed

text \<open>Init keeps the pre-connect map and only adds keys to \<open>publishSubs\<close>.\<close>

lemma Init_fields:
  "preparePubSubTopics (snd (Init env ns)) = preparePubSubTopics ns"
  "fst ` set (publishSubs ns) \<subseteq> fst ` set (publishSubs (snd (Init env ns)))"
proof -
  let ?own = "getChannel (Type (server ns)) (ID (server ns))"
  let ?X = "ChanQueueSubscribe env ?own [] SubChan (ns\<lparr>conn := True\<rparr>)"
  let ?ns3 = "(snd ?X)\<lparr>sub := Some (projr (fst ?X))\<rparr>"
  let ?Y = "ChanQueueSubscribe env (GetForkTopic (Type (server ns))) [] SubChan ?ns3"
  let ?ns5 = "(snd ?Y)\<lparr>broadcastSubs := broadcastSubs (snd ?Y) @ [projr (fst ?Y)]\<rparr>"
  let ?Z = "Init_publish env (preparePubSubTopics ns) ?ns5"
  have keys: "fst ` set (publishSubs ?ns5) \<subseteq> fst ` set (publishSubs (snd ?Z))"
    by (rule Init_publish_fields(2))
  show "preparePubSubTopics (snd (Init env ns)) = preparePubSubTopics ns"
    by (simp add: Init_def Let_def subscribe_def subscribeToBindingsChannel_def ChanSubscribe_def
          prod.case_eq_if sum.case_eq_if option.case_eq_if ChanQueueSubscribe_fields
          Init_publish_fields(1))
  show "fst ` set (publishSubs ns) \<subseteq> fst ` set (publishSubs (snd (Init env ns)))"
    using keys
    by (simp add: Init_def Let_def subscribe_def subscribeToBindingsChannel_def ChanSubscribe_def
          prod.case_eq_if sum.case_eq_if option.case_eq_if ChanQueueSubscribe_fields
          Init_publish_fields(1))
qed

text \<open>
  Init on a server that has not connected: the own subject, the fork subject and the
  bindings subject are no publish subjects, and the loop subscribes each key of the
  pre-connect map once.
\<close>

lemma Init_live_once:
  assumes "not_connected ns"
  shows "live_once (snd (Init env ns))"
proof (cases "n_setupNatsConn env")
  case (Some e)
  with assms show ?thesis
    by (simp add: Init_def live_once_def subjects_def not_connected_def)
next
  case None
  let ?own = "getChannel (Type (server ns)) (ID (server ns))"
  let ?X = "ChanQueueSubscribe env ?own [] SubChan (ns\<lparr>conn := True\<rparr>)"
  let ?ns3 = "(snd ?X)\<lparr>sub := Some (projr (fst ?X))\<rparr>"
  let ?Y = "ChanQueueSubscribe env (GetForkTopic (Type (server ns))) [] SubChan ?ns3"
  let ?ns5 = "(snd ?Y)\<lparr>broadcastSubs := broadcastSubs (snd ?Y) @ [projr (fst ?Y)]\<rparr>"
  let ?Z = "Init_publish env (preparePubSubTopics ns) ?ns5"
  have l1: "live_once (ns\<lparr>conn := True\<rparr>)"
    using assms by (simp add: live_once_def subjects_def not_connected_def)
  have lX: "live_once (snd ?X)"
    by (rule ChanQueueSubscribe_live_once [OF l1]) (rule not_publish_topic)
  then have l3: "live_once ?ns3" by simp
  have lY: "live_once (snd ?Y)"
    by (rule ChanQueueSubscribe_live_once [OF l3]) (rule not_publish_topic)
  then have l5: "live_once ?ns5" by simp
  have p5: "publishSubs ?ns5 = []"
    using assms by (simp add: ChanQueueSubscribe_fields not_connected_def)
  have lZ: "live_once (snd ?Z)"
    using assms l5 p5 by (intro Init_publish_live_once) (simp_all add: not_connected_def)
  have lB: "live_once (snd (ChanQueueSubscribe env (GetBindBroadcastTopic ty) [] BindingsChan (snd ?Z)))"
    for ty
    by (rule ChanQueueSubscribe_live_once [OF lZ]) (rule not_publish_topic)
  show ?thesis
    using None lX lY lZ lB
    by (simp add: Init_def Let_def subscribe_def subscribeToBindingsChannel_def ChanSubscribe_def
          prod.case_eq_if sum.case_eq_if option.case_eq_if ChanQueueSubscribe_fields)
qed

text \<open>A constructed server has not connected.\<close>

lemma new_ns_not_connected:
  assumes "NewNatsRPCServer config sv = Returned (Some ns0, None)"
  shows "not_connected ns0"
  using assms
  by (auto simp: NewNatsRPCServer_def configure_def new_ns_def Let_def not_connected_def
      split: if_splits)

lemma live_once_count:
  "live_once ns \<Longrightarrow> count_list (subjects ns) (GetPublishTopic t) \<le> 1"
proof -
  assume "live_once ns"
  then have "count_list (subjects ns) (GetPublishTopic t)
      \<le> (if GetPublishTopic t \<in> fst ` set (publishSubs ns) then 1 else 0)"
    by (simp add: live_once_def)
  also have "\<dots> \<le> 1" by simp
  finally show ?thesis .
qed

lemma lifecycle_live_once:
  assumes "NewNatsRPCServer config sv = Returned (Some ns0, None)"
  shows "count_list (subjects (lifecycle env pre post ns0)) (GetPublishTopic t) \<le> 1"
proof -
  have "not_connected (Subscribes env pre ns0)"
    by (rule Subscribes_not_connected) (rule new_ns_not_connected [OF assms])
  then have "live_once (snd (Init env (Subscribes env pre ns0)))"
    by (rule Init_live_once)
  then have "live_once (lifecycle env pre post ns0)"
    unfolding lifecycle_def by (rule Subscribes_live_once)
  then show ?thesis by (rule live_once_count)
qed

text \<open>
  Subscribe on a registered topic changes nothing; a Subscribe that returns nil leaves
  the topic registered; Init keeps it registered.
\<close>

lemma Subscribe_registered_noop:
  "registered ns (GetPublishTopic topic) \<Longrightarrow>
   Subscribe env topic groups ns = (None, ns, [Warn (GetPublishTopic topic) ErrAlreadySubscribed])"
  by (auto simp: Subscribe_def registered_def Let_def)

lemma Subscribe_registers:
  assumes "Subscribe env topic groups ns = (None, ns', l)"
  shows "registered ns' (GetPublishTopic topic)"
proof -
  let ?p = "GetPublishTopic topic"
  let ?g = "case groups of [] \<Rightarrow> [] | g # gs \<Rightarrow> g"
  let ?X = "ChanQueueSubscribe env ?p ?g SubChan ns"
  show ?thesis
  proof (cases "registered ns ?p")
    case True
    with assms show ?thesis by (simp add: Subscribe_registered_noop)
  next
    case False
    with assms show ?thesis
      by (auto simp: Subscribe_def registered_def Let_def subscribe_choice update_conv'
            prod.case_eq_if sum.case_eq_if ChanQueueSubscribe_fields
          split: if_splits)
  qed
qed

lemma Init_registered:
  assumes "registered ns p"
  shows "registered (snd (Init env ns)) p"
  using assms Init_fields(2) [of ns env]
  by (auto simp: registered_def Init_fields(1) map_of_eq_None_iff)

text \<open>
  C8: once Subscribe has returned nil for a topic, a second Subscribe for it returns nil,
  logs the warning and changes nothing, both while the registration is pending and after
  Init has run; and over the life of a constructed server (registrations, Init,
  registrations) the broker never holds more than one subscription on a publish subject.
\<close>

theorem Subscribe_idempotent:
  "(Subscribe env1 topic groups1 ns = (None, ns1, l1) \<longrightarrow>
      Subscribe env2 topic groups2 ns1
        = (None, ns1, [Warn (GetPublishTopic topic) ErrAlreadySubscribed]) \<and>
      Subscribe env2 topic groups2 (snd (Init env3 ns1))
        = (None, snd (Init env3 ns1), [Warn (GetPublishTopic topic) ErrAlreadySubscribed])) \<and>
   (NewNatsRPCServer config sv = Returned (Some ns0, None) \<longrightarrow>
      count_list (subjects (lifecycle env pre post ns0)) (GetPublishTopic t) \<le> 1)"
  using Subscribe_registers [of env1 topic groups1 ns ns1 l1]
    Init_registered [of ns1 "GetPublishTopic topic" env3]
    lifecycle_live_once [of config sv ns0 env pre post t]
  by (auto simp: Subscribe_registered_noop)

theorem Subscribe_idempotent_witness:
  "NewNatsRPCServer ex_config ex_backend = Returned (Some ex_ns, None) \<and>
   Subscribe ex_nats_env ''chat'' [''g1''] ex_ns = (None, ex_ns_pending, []) \<and>
   Subscribe ex_nats_env ''chat'' [] ex_ns_pending
     = (None, ex_ns_pending, [Warn ''pitaya.publish.chat'' ErrAlreadySubscribed]) \<and>
   fst (Subscribe ex_nats_env ''chat'' [] (snd (Init ex_nats_env ex_ns_pending))) = None \<and>
   subjects (lifecycle ex_nats_env [(''chat'', [''g1''])] [(''chat'', []), (''mail'', [])] ex_ns)
     = [''pitaya/servers/game/B1'', ''pitaya.fork.game'', ''pitaya.publish.chat'',
        ''pitaya/game/bindings'', ''pitaya.publish.mail''] \<and>
   count_list
     (subjects (lifecycle ex_nats_env [(''chat'', [''g1''])] [(''chat'', []), (''mail'', [])] ex_ns))
     (GetPublishTopic ''chat'') = 1"
proof -
  have new: "NewNatsRPCServer ex_config ex_backend = Returned (Some ex_ns, None)"
    by (simp add: NewNatsRPCServer_def configure_def Let_def ex_config_def ex_ns_def new_ns_def)
  have first: "Subscribe ex_nats_env ''chat'' [''g1''] ex_ns = (None, ex_ns_pending, [])"
    by (simp add: Subscribe_def Let_def ex_ns_pending_def ex_ns_def new_ns_def
          GetPublishTopic_def PublishServiceName_def)
  have run:
    "subjects (lifecycle ex_nats_env [(''chat'', [''g1''])] [(''chat'', []), (''mail'', [])] ex_ns)
       = [''pitaya/servers/game/B1'', ''pitaya.fork.game'', ''pitaya.publish.chat'',
          ''pitaya/game/bindings'', ''pitaya.publish.mail'']"
    by (simp add: lifecycle_def Subscribe_def Init_def Let_def subscribe_def ChanSubscribe_def
          ChanQueueSubscribe_def subscribeToBindingsChannel_def subjects_def
          ex_ns_def new_ns_def ex_nats_env_def ex_backend_def
          GetPublishTopic_def PublishServiceName_def getChannel_def GetForkTopic_def
          GetBindBroadcastTopic_def)
  have cnt:
    "count_list [''pitaya/servers/game/B1'', ''pitaya.fork.game'', ''pitaya.publish.chat'',
        ''pitaya/game/bindings'', ''pitaya.publish.mail''] (GetPublishTopic ''chat'') = 1"
    by (simp add: GetPublishTopic_def PublishServiceName_def)
  show ?thesis
    using Subscribe_idempotent [of ex_nats_env "''chat''" "[''g1'']" ex_ns ex_ns_pending "[]"
            ex_nats_env "[]" ex_nats_env ex_config ex_backend ex_ns ex_nats_env
            "[(''chat'', [''g1''])]" "[(''chat'', []), (''mail'', [])]" "''chat''"]
          new first run cnt
    by (simp add: GetPublishTopic_def PublishServiceName_def)
qed

subsection \<open>Drop accounting\<close>

text \<open>The three accumulating statements compute the sum of all readings.\<close>

lemma sum_dropped_eq:
  "sum_dropped rd ns =
     rd (sub ns) + sum_list (map (\<lambda>sb. rd (Some sb)) (broadcastSubs ns))
       + sum_list (map (\<lambda>(t, sb). rd (Some sb)) (publishSubs ns))"
proof -
  have a: "foldl (\<lambda>d sb. d + rd (Some sb)) d xs = d + sum_list (map (\<lambda>sb. rd (Some sb)) xs)"
    for d xs by (induction xs arbitrary: d) (simp_all add: add.assoc)
  have b: "foldl (\<lambda>d (t, sb). d + rd (Some sb)) d ys = d + sum_list (map (\<lambda>(t, sb). rd (Some sb)) ys)"
    for d and ys :: "(string \<times> Subscription) list"
    by (induction ys arbitrary: d) (auto simp: add.assoc)
  show ?thesis by (simp add: sum_dropped_def Let_def a b)
qed

text \<open>
  One iteration never lowers the counter, hence neither does a run, nor the rest of a
  run after any prefix of it.
\<close>

lemma account_dropped_mono: "sint (dropped ns) \<le> sint (dropped (account_dropped rd ns))"
  by (simp add: account_dropped_def Let_def)

lemma handleMessages_mono:
  "sint (dropped ns) \<le> sint (dropped (fst (handleMessages evs ns out)))"
proof (induction evs ns out rule: handleMessages.induct)
  case (3 rd req reply evs ns out)
  then show ?case
    using account_dropped_mono [of ns rd]
    by (cases req) (auto simp: Let_def intro: order_trans)
qed simp_all

lemma handleMessages_append_mono:
  "sint (dropped (fst (handleMessages evs ns out)))
     \<le> sint (dropped (fst (handleMessages (evs @ evs') ns out)))"
proof (induction evs ns out rule: handleMessages.induct)
  case (1 ns out)
  then show ?case by (simp add: handleMessages_mono)
next
  case (2 evs ns out)
  then show ?case by simp
next
  case (3 rd req reply evs ns out)
  then show ?case by (cases req) (simp_all add: Let_def)
qed

text \<open>
  C10: the stored dropped counter never decreases over a run of handleMessages, neither
  from the start of the run nor from any point of it to a later one. Each message adds up
  the dropped counts of the own subscription, the broadcast subscriptions and the publish
  subscriptions, and the counter takes that sum only when the sum is greater than it.
\<close>

theorem handleMessages_dropped_monotone:
  "sint (dropped ns) \<le> sint (dropped (fst (handleMessages evs ns out))) \<and>
   sint (dropped (fst (handleMessages evs ns out)))
     \<le> sint (dropped (fst (handleMessages (evs @ evs') ns out))) \<and>
   dropped (account_dropped rd ns)
     = (if sint (dropped ns) < sint (sum_dropped rd ns) then sum_dropped rd ns else dropped ns) \<and>
   sum_dropped rd ns
     = rd (sub ns) + sum_list (map (\<lambda>sb. rd (Some sb)) (broadcastSubs ns))
         + sum_list (map (\<lambda>(t, sb). rd (Some sb)) (publishSubs ns))"
  using handleMessages_mono [of ns evs out] handleMessages_append_mono [of evs ns out evs']
    sum_dropped_eq [of rd ns]
  by (simp add: account_dropped_def Let_def)

theorem handleMessages_dropped_monotone_witness:
  "map (\<lambda>k. dropped (fst (handleMessages (take k ex_events) ex_ns_live []))) [0, 1, 2, 3]
     = [0, 5, 5, 9] \<and>
   sint (dropped ex_ns_live) \<le> sint (dropped (fst (handleMessages ex_events ex_ns_live []))) \<and>
   sint (dropped (fst (handleMessages (take 1 ex_events) ex_ns_live [])))
     \<le> sint (dropped (fst (handleMessages (take 1 ex_events @ drop 1 ex_events) ex_ns_live [])))"
  using handleMessages_dropped_monotone [of ex_ns_live ex_events "[]"]
        handleMessages_dropped_monotone [of ex_ns_live "take 1 ex_events" "[]" "drop 1 ex_events"]
  by (simp add: ex_events_def ex_ns_live_def account_dropped_def sum_dropped_def Let_def)

end
